theory Spec2Isabelle
  imports Complex_Main "HOL-Library.Word"
begin

section \<open>JavaScript values\<close>

text \<open>
  A JavaScript string is a sequence of UTF-16 code units. \<open>js\<close> writes an ASCII literal
  as such a sequence; it is used for concrete inputs only.
\<close>

type_synonym js_string = "16 word list"

definition js :: "string \<Rightarrow> js_string" where
  "js s = map (\<lambda>c. of_char c) s"

text \<open>
  A value thrown by the code: the \<open>TypeError\<close> the runtime raises when a property of
  \<open>undefined\<close> or \<open>null\<close> is read, or a value the code throws itself.
\<close>

datatype 'e js_error = TypeError | Thrown 'e

text \<open>
  Reading \<open>array[i]\<close> gives \<open>undefined\<close> (\<open>None\<close>) out of range.
\<close>

fun js_nth :: "'a list \<Rightarrow> nat \<Rightarrow> 'a option" where
  "js_nth [] i = None"
| "js_nth (x # xs) 0 = Some x"
| "js_nth (x # xs) (Suc i) = js_nth xs i"

text \<open>
  \<open>String.prototype.split\<close> with a separator of one code unit: the pieces between the
  occurrences of the separator, empty pieces included; the empty string gives one empty
  piece.
\<close>

fun js_split :: "'a \<Rightarrow> 'a list \<Rightarrow> 'a list list" where
  "js_split sep [] = [[]]"
| "js_split sep (c # cs) =
     (if c = sep then [] # js_split sep cs
      else (case js_split sep cs of
              [] \<Rightarrow> [[c]]
            | w # ws \<Rightarrow> (c # w) # ws))"

text \<open>
  lodash \<open>_compact\<close> on an array whose entries are either \<open>undefined\<close> (\<open>None\<close>) or a
  truthy value (an object, a non-empty error): the \<open>undefined\<close> entries are removed.
\<close>

fun compact :: "'a option list \<Rightarrow> 'a list" where
  "compact [] = []"
| "compact (None # xs) = compact xs"
| "compact (Some x # xs) = x # compact xs"

section \<open>The command parser (CommandParser.js)\<close>

subsection \<open>Collaborators that are not part of CommandParser.js\<close>

text \<open>
  Modelled from the spec: the class \<open>CommandModel\<close> (the spec's Command Record), which
  CommandParser.js imports. A record holds one canonical command name, its raw arguments
  in insertion order, and its parsed arguments, which are absent until the record has
  been parsed. The name is \<open>None\<close> when the constructor received \<open>undefined\<close> (a lookup
  in the command table that found nothing); a raw argument is \<open>None\<close> when \<open>undefined\<close>
  was pushed.
\<close>

record 'v CommandModel =
  cmd_name :: "js_string option"
  cmd_args :: "js_string option list"
  parsedArgs :: "'v list option"

definition new_CommandModel :: "js_string option \<Rightarrow> 'v CommandModel" where
  "new_CommandModel n = \<lparr>cmd_name = n, cmd_args = [], parsedArgs = None\<rparr>"

text \<open>\<open>commandModel.args.push(x)\<close>\<close>

definition args_push :: "'v CommandModel \<Rightarrow> js_string option \<Rightarrow> 'v CommandModel" where
  "args_push m x = m\<lparr>cmd_args := cmd_args m @ [x]\<rparr>"

text \<open>
  What CommandParser.js imports and the theory takes as parameters: the string method
  \<open>toLowerCase\<close>; the tables \<open>SYSTEM_COMMANDS\<close> and \<open>COMMAND_MAP\<close> of commandMap.js, each
  through the two ways the parser reads it (\<open>_has(table, key)\<close> and the property read
  \<open>table[key]\<close>, \<open>None\<close> for \<open>undefined\<close>); \<open>REGEX.UNICODE.test\<close>; \<open>unicodeToString\<close>;
  and the per-command rules behind \<open>CommandModel.validateArgs\<close> (\<open>None\<close> for a falsy
  result, that is, no error) and \<open>CommandModel.parseArgs\<close>, keyed by the record's name.
\<close>

record ('e, 'v) env =
  toLowerCase :: "js_string \<Rightarrow> js_string"
  SYSTEM_COMMANDS_has :: "js_string \<Rightarrow> bool"
  SYSTEM_COMMANDS_transmit :: js_string
  COMMAND_MAP_has :: "js_string \<Rightarrow> bool"
  COMMAND_MAP_get :: "js_string \<Rightarrow> js_string option"
  REGEX_UNICODE_test :: "js_string \<Rightarrow> bool"
  unicodeToString :: "js_string \<Rightarrow> js_string"
  validate :: "js_string option \<Rightarrow> js_string option list \<Rightarrow> 'e option"
  parse :: "js_string option \<Rightarrow> js_string option list \<Rightarrow> 'v list"

definition validateArgs :: "('e, 'v) env \<Rightarrow> 'v CommandModel \<Rightarrow> 'e option" where
  "validateArgs E m = validate E (cmd_name m) (cmd_args m)"

definition parseArgs :: "('e, 'v) env \<Rightarrow> 'v CommandModel \<Rightarrow> 'v CommandModel" where
  "parseArgs E m = m\<lparr>parsedArgs := Some (parse E (cmd_name m) (cmd_args m))\<rparr>"

subsection \<open>The parser object\<close>

definition COMMAND_ARGS_SEPARATOR :: "16 word" where
  "COMMAND_ARGS_SEPARATOR = 0x20"

record 'v CommandParser =
  command :: js_string
  callsign :: js_string
  commandList :: "'v CommandModel list"

text \<open>\<open>_isSystemCommand\<close>\<close>

definition isSystemCommand :: "('e, 'v) env \<Rightarrow> js_string \<Rightarrow> bool" where
  "isSystemCommand E callsignOrSystemCommandName =
     (SYSTEM_COMMANDS_has E callsignOrSystemCommandName \<and>
      callsignOrSystemCommandName \<noteq> SYSTEM_COMMANDS_transmit E)"

text \<open>
  \<open>_validateCommandArguments\<close>: the callback of \<open>_map\<close> validates one record; on an error
  it returns the error and leaves the record as it is, otherwise it parses the record in
  place and returns \<open>undefined\<close>. The function returns the compacted errors; the second
  component is the command list after the pass, since the records are mutated in place.
\<close>

definition validateOne ::
  "('e, 'v) env \<Rightarrow> 'v CommandModel \<Rightarrow> 'e option \<times> 'v CommandModel" where
  "validateOne E c =
     (case validateArgs E c of
        Some hasError \<Rightarrow> (Some hasError, c)
      | None \<Rightarrow> (None, parseArgs E c))"

definition validateCommandArguments ::
  "('e, 'v) env \<Rightarrow> 'v CommandModel list \<Rightarrow> 'e list \<times> 'v CommandModel list" where
  "validateCommandArguments E cl =
     (compact (map (\<lambda>c. fst (validateOne E c)) cl), map (\<lambda>c. snd (validateOne E c)) cl)"

text \<open>
  \<open>_forEach(validationErrors, (error) => { throw error; })\<close>: the callback throws at the
  first element, so no later element is visited.
\<close>

fun throwEach :: "'e list \<Rightarrow> 'e js_error + unit" where
  "throwEach [] = Inr ()"
| "throwEach (error # rest) = Inl (Thrown error)"

text \<open>\<open>_validateAndParseCommandArguments\<close>\<close>

definition validateAndParseCommandArguments ::
  "('e, 'v) env \<Rightarrow> 'v CommandParser \<Rightarrow> 'e js_error + 'v CommandParser" where
  "validateAndParseCommandArguments E p =
     (let (validationErrors, cl) = validateCommandArguments E (commandList p) in
      if length validationErrors > 0
      then (case throwEach validationErrors of
              Inl err \<Rightarrow> Inl err
            | Inr _ \<Rightarrow> Inr (p\<lparr>commandList := cl\<rparr>))
      else Inr (p\<lparr>commandList := cl\<rparr>))"

text \<open>
  \<open>_buildSystemCommandModel\<close>. It is called with the result of \<open>split\<close>, which is never
  empty, so \<open>commandArgSegments[0]\<close> is its head; \<open>commandArgSegments[1]\<close> is \<open>undefined\<close>
  when the line has one token, and is pushed all the same. \<open>systemCommandModel\<close> is the
  record the method builds before it validates.
\<close>

definition systemCommandModel :: "js_string list \<Rightarrow> 'v CommandModel" where
  "systemCommandModel commandArgSegments =
     args_push (new_CommandModel (Some (hd commandArgSegments))) (js_nth commandArgSegments 1)"

definition buildSystemCommandModel ::
  "('e, 'v) env \<Rightarrow> js_string list \<Rightarrow> 'v CommandParser \<Rightarrow> 'e js_error + 'v CommandParser" where
  "buildSystemCommandModel E commandArgSegments p =
     (let commandName = hd commandArgSegments;
          m = systemCommandModel commandArgSegments
      in validateAndParseCommandArguments E
           (p\<lparr>command := commandName, commandList := commandList p @ [m]\<rparr>))"

text \<open>
  \<open>_buildCommandList\<close>. The callback of \<open>_map\<close> shares the variable \<open>commandModel\<close> across
  its calls and pushes arguments into the object the variable refers to, which is also
  an entry of the mapped array. The objects therefore live in a heap (a list, a reference
  being a position in it); the variable holds \<open>undefined\<close> (\<open>None\<close>) or a reference, and
  the callback returns \<open>undefined\<close> or a reference. A reference is the position that
  \<open>allocate\<close> gave the object, so it is always a position of the heap.
\<close>

record 'v scan =
  heap :: "'v CommandModel list"
  commandModel :: "nat option"

definition allocate :: "'v CommandModel \<Rightarrow> 'v scan \<Rightarrow> nat option \<times> 'v scan" where
  "allocate m s =
     (Some (length (heap s)), \<lparr>heap = heap s @ [m], commandModel = Some (length (heap s))\<rparr>)"

definition scanToken ::
  "('e, 'v) env \<Rightarrow> js_string \<Rightarrow> 'v scan \<Rightarrow> 'e js_error + (nat option \<times> 'v scan)" where
  "scanToken E commandOrArg s =
     (if commandOrArg = [] then Inr (None, s)
      else if REGEX_UNICODE_test E commandOrArg then
        (let commandString = unicodeToString E commandOrArg
         in Inr (allocate (new_CommandModel (COMMAND_MAP_get E commandString)) s))
      else if COMMAND_MAP_has E commandOrArg then
        Inr (allocate (new_CommandModel (COMMAND_MAP_get E commandOrArg)) s)
      else (case commandModel s of
              None \<Rightarrow> Inl TypeError
            | Some r \<Rightarrow>
                Inr (None, s\<lparr>heap := (heap s)[r := args_push (heap s ! r) (Some commandOrArg)]\<rparr>)))"

fun scanTokens ::
  "('e, 'v) env \<Rightarrow> js_string list \<Rightarrow> 'v scan \<Rightarrow> 'e js_error + (nat option list \<times> 'v scan)" where
  "scanTokens E [] s = Inr ([], s)"
| "scanTokens E (t # ts) s =
     (case scanToken E t s of
        Inl err \<Rightarrow> Inl err
      | Inr (r, s') \<Rightarrow>
          (case scanTokens E ts s' of
             Inl err \<Rightarrow> Inl err
           | Inr (rs, s'') \<Rightarrow> Inr (r # rs, s'')))"

definition buildCommandList ::
  "('e, 'v) env \<Rightarrow> js_string list \<Rightarrow> 'e js_error + 'v CommandModel list" where
  "buildCommandList E commandArgSegments =
     (case scanTokens E commandArgSegments \<lparr>heap = [], commandModel = None\<rparr> of
        Inl err \<Rightarrow> Inl err
      | Inr (mapped, s) \<Rightarrow> Inr (map (\<lambda>r. heap s ! r) (compact mapped)))"

text \<open>\<open>_buildTransmitCommandModels\<close>\<close>

definition buildTransmitCommandModels ::
  "('e, 'v) env \<Rightarrow> js_string \<Rightarrow> js_string list \<Rightarrow> 'v CommandParser
     \<Rightarrow> 'e js_error + 'v CommandParser" where
  "buildTransmitCommandModels E callsignOrSystemCommandName commandArgSegments p =
     (case buildCommandList E commandArgSegments of
        Inl err \<Rightarrow> Inl err
      | Inr cl \<Rightarrow>
          validateAndParseCommandArguments E
            (p\<lparr>command := SYSTEM_COMMANDS_transmit E,
               callsign := callsignOrSystemCommandName,
               commandList := cl\<rparr>))"

text \<open>
  \<open>_extractCommandsAndArgs\<close>. The result of \<open>split\<close> has at least one piece
  (lemma \<open>tokens_not_Nil\<close>), so its head is \<open>commandArgSegmentsWithCallsign[0]\<close> and its
  tail is \<open>_tail(commandArgSegmentsWithCallsign)\<close>.
\<close>

definition tokens :: "js_string \<Rightarrow> js_string list" where
  "tokens rawCommandWithArgs = js_split COMMAND_ARGS_SEPARATOR rawCommandWithArgs"

definition extractCommandsAndArgs ::
  "('e, 'v) env \<Rightarrow> js_string \<Rightarrow> 'v CommandParser \<Rightarrow> 'e js_error + 'v CommandParser" where
  "extractCommandsAndArgs E rawCommandWithArgs p =
     (let commandArgSegmentsWithCallsign = tokens rawCommandWithArgs;
          callsignOrSystemCommandName = hd commandArgSegmentsWithCallsign;
          commandArgSegments = tl commandArgSegmentsWithCallsign
      in if isSystemCommand E callsignOrSystemCommandName
         then buildSystemCommandModel E commandArgSegmentsWithCallsign p
         else buildTransmitCommandModels E callsignOrSystemCommandName commandArgSegments p)"

text \<open>
  The constructor. Its argument is a string by its type, so the \<open>TypeError\<close> for a
  parameter that is not a string has no counterpart here.
\<close>

definition new_CommandParser ::
  "('e, 'v) env \<Rightarrow> js_string \<Rightarrow> 'e js_error + 'v CommandParser" where
  "new_CommandParser E rawCommandWithArgs =
     extractCommandsAndArgs E (toLowerCase E rawCommandWithArgs)
       \<lparr>command = [], callsign = [], commandList = []\<rparr>"

subsection \<open>The scan in closed form\<close>

text \<open>
  The callback of \<open>_buildCommandList\<close> starts a record for a token when the token is not
  empty and passes one of its two tests, \<open>REGEX.UNICODE.test\<close> or \<open>_has(COMMAND_MAP, token)\<close>;
  \<open>commandFor\<close> is the record it starts, named by the lookup the branch makes (\<open>undefined\<close>
  when the table has no entry).
\<close>

definition startsRecord :: "('e, 'v) env \<Rightarrow> js_string \<Rightarrow> bool" where
  "startsRecord E t = (t \<noteq> [] \<and> (REGEX_UNICODE_test E t \<or> COMMAND_MAP_has E t))"

definition commandFor :: "('e, 'v) env \<Rightarrow> js_string \<Rightarrow> 'v CommandModel" where
  "commandFor E t =
     new_CommandModel
       (if REGEX_UNICODE_test E t then COMMAND_MAP_get E (unicodeToString E t)
        else COMMAND_MAP_get E t)"

text \<open>
  The records the scan leaves in the heap: one for every token that starts a record, in
  the order of the tokens, holding the non-empty tokens up to the next token that starts
  a record. The scan succeeds when the first non-empty token, if there is one, starts a
  record.
\<close>

definition pendingArgs :: "('e, 'v) env \<Rightarrow> js_string list \<Rightarrow> js_string option list" where
  "pendingArgs E ts =
     map Some (filter (\<lambda>t. t \<noteq> []) (takeWhile (\<lambda>t. \<not> startsRecord E t) ts))"

fun recordGroups :: "('e, 'v) env \<Rightarrow> js_string list \<Rightarrow> 'v CommandModel list" where
  "recordGroups E [] = []"
| "recordGroups E (t # ts) =
     (if startsRecord E t
      then (commandFor E t)\<lparr>cmd_args := pendingArgs E ts\<rparr> # recordGroups E ts
      else recordGroups E ts)"

definition leadingTokenStartsRecord :: "('e, 'v) env \<Rightarrow> js_string list \<Rightarrow> bool" where
  "leadingTokenStartsRecord E ts =
     (case filter (\<lambda>t. t \<noteq> []) ts of [] \<Rightarrow> True | t # rest \<Rightarrow> startsRecord E t)"

text \<open>The array \<open>_map\<close> returns when the scan starts with \<open>n\<close> objects in the heap.\<close>

fun mappedFrom :: "('e, 'v) env \<Rightarrow> nat \<Rightarrow> js_string list \<Rightarrow> nat option list" where
  "mappedFrom E n [] = []"
| "mappedFrom E n (t # ts) =
     (if startsRecord E t then Some n # mappedFrom E (Suc n) ts else None # mappedFrom E n ts)"

subsection \<open>The grouping as the specification words it\<close>






subsection \<open>A small command table for concrete lines\<close>

text \<open>
  The aliases of the lines \<open>aa777 fh 0270 d 050 sp 200\<close> and \<open>timewarp 50\<close>, with a rule
  that asks every command for exactly one argument, an error that names the command, and
  a parser that keeps the argument strings.
\<close>

definition example_COMMAND_MAP :: "(js_string \<times> js_string) list" where
  "example_COMMAND_MAP =
     [(js ''fh'', js ''heading''), (js ''d'', js ''descend''), (js ''sp'', js ''speed'')]"

definition ascii_lower :: "js_string \<Rightarrow> js_string" where
  "ascii_lower = map (\<lambda>c. if 0x41 \<le> c \<and> c \<le> 0x5A then c + 0x20 else c)"

definition ascii_upper :: "js_string \<Rightarrow> js_string" where
  "ascii_upper = map (\<lambda>c. if 0x61 \<le> c \<and> c \<le> 0x7A then c - 0x20 else c)"

definition example_env :: "(js_string, js_string) env" where
  "example_env =
     \<lparr>toLowerCase = ascii_lower,
      SYSTEM_COMMANDS_has = (\<lambda>k. k \<in> set [js ''timewarp'', js ''transmit'']),
      SYSTEM_COMMANDS_transmit = js ''transmit'',
      COMMAND_MAP_has = (\<lambda>k. map_of example_COMMAND_MAP k \<noteq> None),
      COMMAND_MAP_get = map_of example_COMMAND_MAP,
      REGEX_UNICODE_test = list_ex (\<lambda>c. 0xFF < c),
      unicodeToString = take 1,
      validate = (\<lambda>n a. case a of
                     [Some x] \<Rightarrow> None
                   | _ \<Rightarrow> (case n of Some c \<Rightarrow> Some c | None \<Rightarrow> Some [])),
      parse = (\<lambda>n a. compact a)\<rparr>"

definition heading_270 :: "js_string CommandModel" where
  "heading_270 =
     \<lparr>cmd_name = Some (js ''heading''), cmd_args = [Some (js ''270'')], parsedArgs = None\<rparr>"

definition heading_no_args :: "js_string CommandModel" where
  "heading_no_args = \<lparr>cmd_name = Some (js ''heading''), cmd_args = [], parsedArgs = None\<rparr>"

definition descend_no_args :: "js_string CommandModel" where
  "descend_no_args = \<lparr>cmd_name = Some (js ''descend''), cmd_args = [], parsedArgs = None\<rparr>"

section \<open>The procedure model (StandardRouteModel)\<close>

subsection \<open>Collaborators that are not part of the file\<close>

text \<open>
  Modelled from the spec: the elements of a fix list in a procedure definition. An
  element is a bare fix name or a pair of a fix name and a restriction code.
\<close>

datatype fix_input = FixName js_string | FixWithRestriction js_string js_string

type_synonym position = "real \<times> real"

text \<open>
  What the waypoints take from outside: the position of a fix (resolved externally from
  the fix name), the case normalisation of segment names, and the number of nautical
  miles in one unit of planar distance.
\<close>

record fix_env =
  fix_position :: "js_string \<Rightarrow> position"
  normalizeName :: "js_string \<Rightarrow> js_string"
  nm_factor :: real

text \<open>
  Modelled from the spec: the class \<open>StandardRouteWaypointModel\<close> (the spec's Waypoint
  Record): fix name, optional restriction, position, and the two annotations, which are
  absent until the pre-spawn pass writes them. Its fix is the pair of name and
  restriction that the fix lists hold.
\<close>

record StandardRouteWaypointModel =
  wp_name :: js_string
  wp_restrictions :: "js_string option"
  wp_position :: position
  distanceFromPreviousWaypoint :: "real option"
  previousStandardWaypointName :: "js_string option"

fun new_StandardRouteWaypointModel :: "fix_env \<Rightarrow> fix_input \<Rightarrow> StandardRouteWaypointModel" where
  "new_StandardRouteWaypointModel F (FixName n) =
     \<lparr>wp_name = n, wp_restrictions = None, wp_position = fix_position F n,
      distanceFromPreviousWaypoint = None, previousStandardWaypointName = None\<rparr>"
| "new_StandardRouteWaypointModel F (FixWithRestriction n r) =
     \<lparr>wp_name = n, wp_restrictions = Some r, wp_position = fix_position F n,
      distanceFromPreviousWaypoint = None, previousStandardWaypointName = None\<rparr>"

definition wp_fix :: "StandardRouteWaypointModel \<Rightarrow> js_string \<times> js_string option" where
  "wp_fix w = (wp_name w, wp_restrictions w)"

text \<open>
  Modelled from the spec: the class \<open>RouteSegmentModel\<close> (the spec's Route Segment): a
  name tag and an ordered list of waypoints, built from a fix list (an absent fix list
  gives an empty segment). \<open>findWaypointsForSegment\<close> gives the fixes of its waypoints.
\<close>

record RouteSegmentModel =
  seg_name :: js_string
  seg_items :: "StandardRouteWaypointModel list"

definition new_RouteSegmentModel ::
  "fix_env \<Rightarrow> js_string \<Rightarrow> fix_input list option \<Rightarrow> RouteSegmentModel" where
  "new_RouteSegmentModel F n segmentFixList =
     \<lparr>seg_name = n,
      seg_items = map (new_StandardRouteWaypointModel F)
                    (case segmentFixList of None \<Rightarrow> [] | Some fixes \<Rightarrow> fixes)\<rparr>"

definition findWaypointsForSegment ::
  "RouteSegmentModel \<Rightarrow> (js_string \<times> js_string option) list" where
  "findWaypointsForSegment seg = map wp_fix (seg_items seg)"

text \<open>
  Modelled from the spec: the class \<open>RouteSegmentCollection\<close> (the spec's Segment
  Collection): the segments of a runway, entry or exit object in the order of its keys,
  never one with an empty fix list. Lookup by name is case-normalised and gives the
  matching segment or nothing (\<open>None\<close>, for the nil value that \<open>hasFixName\<close> tests with
  \<open>_isNil\<close>); a lookup of fixes that misses contributes no fixes.
\<close>

type_synonym segment_data = "(js_string \<times> fix_input list) list"

record RouteSegmentCollection =
  col_items :: "RouteSegmentModel list"

definition new_RouteSegmentCollection :: "fix_env \<Rightarrow> segment_data \<Rightarrow> RouteSegmentCollection" where
  "new_RouteSegmentCollection F segment =
     \<lparr>col_items = map (\<lambda>(key, fixes). new_RouteSegmentModel F key (Some fixes))
                    (filter (\<lambda>(key, fixes). fixes \<noteq> []) segment)\<rparr>"

definition findSegmentByName ::
  "fix_env \<Rightarrow> RouteSegmentCollection \<Rightarrow> js_string \<Rightarrow> RouteSegmentModel option" where
  "findSegmentByName F col segmentName =
     find (\<lambda>seg. normalizeName F (seg_name seg) = normalizeName F segmentName) (col_items col)"

definition findWaypointsForSegmentName ::
  "fix_env \<Rightarrow> RouteSegmentCollection \<Rightarrow> js_string \<Rightarrow> (js_string \<times> js_string option) list" where
  "findWaypointsForSegmentName F col segmentName =
     (case findSegmentByName F col segmentName of
        None \<Rightarrow> []
      | Some seg \<Rightarrow> findWaypointsForSegment seg)"

text \<open>
  Modelled from the spec: \<open>distance2d\<close> of math/distance, the planar distance of two
  positions, and \<open>nm\<close> of utilities/unitConverters, the conversion of a distance to
  nautical miles. Numbers are real numbers here.
\<close>

definition distance2d :: "position \<Rightarrow> position \<Rightarrow> real" where
  "distance2d a b = sqrt ((fst a - fst b)\<^sup>2 + (snd a - snd b)\<^sup>2)"

definition nm :: "fix_env \<Rightarrow> real \<Rightarrow> real" where
  "nm F d = d * nm_factor F"

subsection \<open>The model object\<close>

text \<open>
  The parsed procedure definition \<open>standardRoute\<close>: an object, by its type, so the
  constructor's \<open>TypeError\<close> for another kind of value has no counterpart. A key that the
  object does not have reads as \<open>undefined\<close> (\<open>None\<close>).
\<close>

record route_definition =
  def_icao :: "js_string option"
  def_name :: "js_string option"
  def_draw :: "js_string list list option"
  def_rwy :: "segment_data option"
  def_body :: "fix_input list option"
  def_exitPoints :: "segment_data option"
  def_entryPoints :: "segment_data option"

text \<open>
  The fields of the instance. A raw data field holds \<open>undefined\<close> (\<open>None\<close>) or an object
  or array, of which only the entries matter: \<open>{}\<close> and \<open>[]\<close> are both \<open>Some []\<close>, truthy
  and empty. A field that holds \<open>null\<close> is \<open>None\<close>.
\<close>

record StandardRouteModel =
  name :: "js_string option"
  icao :: "js_string option"
  draw :: "js_string list list option"
  rwy :: "segment_data option"
  body :: "fix_input list option"
  exitPoints :: "segment_data option"
  entryPoints :: "segment_data option"
  bodySegmentModel :: "RouteSegmentModel option"
  exitCollection :: "RouteSegmentCollection option"
  entryCollection :: "RouteSegmentCollection option"

text \<open>\<open>_buildSegmentModel\<close>\<close>

definition buildSegmentModel :: "fix_env \<Rightarrow> fix_input list option \<Rightarrow> RouteSegmentModel" where
  "buildSegmentModel F segmentFixList = new_RouteSegmentModel F (js ''body'') segmentFixList"

text \<open>\<open>_buildSegmentCollection\<close>\<close>

definition buildSegmentCollection ::
  "fix_env \<Rightarrow> segment_data option \<Rightarrow> RouteSegmentCollection option" where
  "buildSegmentCollection F segment =
     (case segment of
        None \<Rightarrow> None
      | Some entries \<Rightarrow>
          if entries = [] then None else Some (new_RouteSegmentCollection F entries))"

text \<open>\<open>_buildEntryAndExitCollections\<close>\<close>

definition buildEntryAndExitCollections ::
  "fix_env \<Rightarrow> route_definition \<Rightarrow> StandardRouteModel \<Rightarrow> StandardRouteModel" where
  "buildEntryAndExitCollections F standardRoute m =
     (if def_entryPoints standardRoute \<noteq> None then
        m\<lparr>entryCollection := buildSegmentCollection F (def_entryPoints standardRoute),
          exitCollection := buildSegmentCollection F (def_rwy standardRoute)\<rparr>
      else if def_exitPoints standardRoute \<noteq> None then
        m\<lparr>entryCollection := buildSegmentCollection F (def_rwy standardRoute),
          exitCollection := buildSegmentCollection F (def_exitPoints standardRoute)\<rparr>
      else m)"

text \<open>\<open>_get(standardRoute, key, {})\<close>\<close>

definition get_or_empty :: "segment_data option \<Rightarrow> segment_data option" where
  "get_or_empty v = (case v of None \<Rightarrow> Some [] | Some x \<Rightarrow> Some x)"

text \<open>\<open>_init\<close>\<close>

definition init :: "fix_env \<Rightarrow> route_definition \<Rightarrow> StandardRouteModel \<Rightarrow> StandardRouteModel" where
  "init F standardRoute m =
     buildEntryAndExitCollections F standardRoute
       (m\<lparr>icao := def_icao standardRoute,
          name := def_name standardRoute,
          draw := def_draw standardRoute,
          rwy := def_rwy standardRoute,
          body := def_body standardRoute,
          exitPoints := get_or_empty (def_exitPoints standardRoute),
          entryPoints := get_or_empty (def_entryPoints standardRoute),
          bodySegmentModel := Some (buildSegmentModel F (def_body standardRoute))\<rparr>)"

text \<open>
  The constructor: the defaults of the declared fields (\<open>entryPoints\<close> is not declared
  and is \<open>undefined\<close> until \<open>_init\<close> assigns it), then \<open>_init\<close>.
\<close>

definition new_StandardRouteModel :: "fix_env \<Rightarrow> route_definition \<Rightarrow> StandardRouteModel" where
  "new_StandardRouteModel F standardRoute =
     init F standardRoute
       \<lparr>name = Some [], icao = Some [], draw = Some [], rwy = Some [], body = Some [],
        exitPoints = Some [], entryPoints = None, bodySegmentModel = None,
        exitCollection = None, entryCollection = None\<rparr>"

text \<open>\<open>reset\<close>\<close>

definition reset :: "StandardRouteModel \<Rightarrow> StandardRouteModel" where
  "reset m =
     m\<lparr>icao := Some [],
       name := Some [],
       rwy := Some [],
       body := Some [],
       exitPoints := Some [],
       draw := Some [],
       bodySegmentModel := None,
       exitCollection := None,
       entryCollection := None\<rparr>"

text \<open>
  \<open>_generateFixList\<close>: the three arrays spread into one, then \<open>_compact\<close>. The entries are
  arrays (fixes) or objects (waypoints), which are truthy.
\<close>

definition generateFixList :: "'a list \<Rightarrow> 'a list \<Rightarrow> 'a list \<Rightarrow> 'a list" where
  "generateFixList entrySegment bodySegment exitSegment =
     compact (map Some (entrySegment @ bodySegment @ exitSegment))"

text \<open>
  \<open>_findFixListInByCollectionAndSegmentName\<close> reads two fields of the instance by name
  with \<open>_get(this, name, null)\<close>.
\<close>

datatype originalCollectionName = Rwy | ExitPoints | EntryPoints

datatype collectionName = EntryCollection | ExitCollection

fun get_original :: "StandardRouteModel \<Rightarrow> originalCollectionName \<Rightarrow> segment_data option" where
  "get_original m Rwy = rwy m"
| "get_original m ExitPoints = exitPoints m"
| "get_original m EntryPoints = entryPoints m"

fun get_collection :: "StandardRouteModel \<Rightarrow> collectionName \<Rightarrow> RouteSegmentCollection option" where
  "get_collection m EntryCollection = entryCollection m"
| "get_collection m ExitCollection = exitCollection m"

definition findFixListInByCollectionAndSegmentName ::
  "fix_env \<Rightarrow> StandardRouteModel \<Rightarrow> originalCollectionName \<Rightarrow> collectionName \<Rightarrow> js_string
     \<Rightarrow> (js_string \<times> js_string option) list" where
  "findFixListInByCollectionAndSegmentName F m originalName colName segmentName =
     (let originalCollection = get_original m originalName;
          collection = get_collection m colName
      in if originalCollection = None \<or> collection = None \<or> segmentName = [] then []
         else (case collection of
                 None \<Rightarrow> []
               | Some col \<Rightarrow> findWaypointsForSegmentName F col segmentName))"

text \<open>
  \<open>_findBodyFixList\<close>. The procedure model throws nothing of its own; the one error of
  its functions is the \<open>TypeError\<close> of the runtime.
\<close>

definition findBodyFixList ::
  "StandardRouteModel \<Rightarrow> unit js_error + (js_string \<times> js_string option) list" where
  "findBodyFixList m =
     (case body m of
        None \<Rightarrow> Inr []
      | Some b \<Rightarrow>
          if length b = 0 then Inr []
          else (case bodySegmentModel m of
                  None \<Rightarrow> Inl TypeError
                | Some seg \<Rightarrow> Inr (findWaypointsForSegment seg)))"

text \<open>\<open>_findFixListForSidByRunwayAndExit\<close> and \<open>_findFixListForStarByEntryAndRunway\<close>\<close>

definition findFixListForSidByRunwayAndExit ::
  "fix_env \<Rightarrow> StandardRouteModel \<Rightarrow> js_string \<Rightarrow> js_string
     \<Rightarrow> unit js_error + (js_string \<times> js_string option) list" where
  "findFixListForSidByRunwayAndExit F m runwayName exitFixName =
     (let entrySegment = findFixListInByCollectionAndSegmentName F m Rwy EntryCollection runwayName
      in case findBodyFixList m of
           Inl err \<Rightarrow> Inl err
         | Inr bodySegment \<Rightarrow>
             Inr (generateFixList entrySegment bodySegment
                    (findFixListInByCollectionAndSegmentName F m ExitPoints ExitCollection
                       exitFixName)))"

definition findFixListForStarByEntryAndRunway ::
  "fix_env \<Rightarrow> StandardRouteModel \<Rightarrow> js_string \<Rightarrow> js_string
     \<Rightarrow> unit js_error + (js_string \<times> js_string option) list" where
  "findFixListForStarByEntryAndRunway F m entryFixName runwayName =
     (let entrySegment =
            findFixListInByCollectionAndSegmentName F m EntryPoints EntryCollection entryFixName
      in case findBodyFixList m of
           Inl err \<Rightarrow> Inl err
         | Inr bodySegment \<Rightarrow>
             Inr (generateFixList entrySegment bodySegment
                    (findFixListInByCollectionAndSegmentName F m Rwy ExitCollection runwayName)))"

definition findFixesAndRestrictionsForRunwayAndExit ::
  "fix_env \<Rightarrow> StandardRouteModel \<Rightarrow> js_string \<Rightarrow> js_string
     \<Rightarrow> unit js_error + (js_string \<times> js_string option) list" where
  "findFixesAndRestrictionsForRunwayAndExit F m runwayName exitFixName =
     findFixListForSidByRunwayAndExit F m runwayName exitFixName"

definition findFixesAndRestrictionsForEntryAndRunway ::
  "fix_env \<Rightarrow> StandardRouteModel \<Rightarrow> js_string \<Rightarrow> js_string
     \<Rightarrow> unit js_error + (js_string \<times> js_string option) list" where
  "findFixesAndRestrictionsForEntryAndRunway F m entryFixName runwayName =
     findFixListForStarByEntryAndRunway F m entryFixName runwayName"

text \<open>
  \<open>_findStandardWaypointModelsForRoute\<close>. Reading \<open>.items\<close> of the nil result of a
  lookup that found no segment, or of a \<open>_bodySegmentModel\<close> that is \<open>null\<close>, raises a
  \<open>TypeError\<close>.
\<close>

definition segmentItemsFor ::
  "fix_env \<Rightarrow> RouteSegmentCollection option \<Rightarrow> js_string
     \<Rightarrow> unit js_error + StandardRouteWaypointModel list" where
  "segmentItemsFor F collection segmentName =
     (case collection of
        None \<Rightarrow> Inr []
      | Some col \<Rightarrow>
          (case findSegmentByName F col segmentName of
             None \<Rightarrow> Inl TypeError
           | Some seg \<Rightarrow> Inr (seg_items seg)))"

definition findStandardWaypointModelsForRoute ::
  "fix_env \<Rightarrow> StandardRouteModel \<Rightarrow> js_string \<Rightarrow> js_string
     \<Rightarrow> unit js_error + StandardRouteWaypointModel list" where
  "findStandardWaypointModelsForRoute F m entry exit =
     (case segmentItemsFor F (entryCollection m) entry of
        Inl err \<Rightarrow> Inl err
      | Inr entrySegmentItems \<Rightarrow>
          (case segmentItemsFor F (exitCollection m) exit of
             Inl err \<Rightarrow> Inl err
           | Inr exitSegmentItems \<Rightarrow>
               (case bodySegmentModel m of
                  None \<Rightarrow> Inl TypeError
                | Some seg \<Rightarrow>
                    Inr (generateFixList entrySegmentItems (seg_items seg) exitSegmentItems))))"

text \<open>\<open>calculateDistanceBetweenWaypoints\<close>\<close>

definition calculateDistanceBetweenWaypoints :: "fix_env \<Rightarrow> position \<Rightarrow> position \<Rightarrow> real" where
  "calculateDistanceBetweenWaypoints F waypoint previousWaypoint =
     (let distance = distance2d previousWaypoint waypoint in nm F distance)"

text \<open>
  \<open>_updateWaypointsWithPreviousWaypointData\<close>: \<open>_forEach\<close> visits the positions of the
  list in order; the callback reads the list as the earlier calls left it and writes the
  two annotations of the waypoint at its position. The waypoints of a resolved sequence
  are distinct objects, so the list of their values stands for the list of objects.
\<close>

definition annotateWaypoint ::
  "fix_env \<Rightarrow> nat \<Rightarrow> StandardRouteWaypointModel list \<Rightarrow> StandardRouteWaypointModel list" where
  "annotateWaypoint F i waypointModelList =
     (let waypoint = waypointModelList ! i;
          previousWaypoint = (if i = 0 then waypoint else waypointModelList ! (i - 1));
          distance = calculateDistanceBetweenWaypoints F (wp_position waypoint)
                       (wp_position previousWaypoint)
      in waypointModelList
           [i := waypoint\<lparr>distanceFromPreviousWaypoint := Some distance,
                          previousStandardWaypointName := Some (wp_name previousWaypoint)\<rparr>])"

definition updateWaypointsWithPreviousWaypointData ::
  "fix_env \<Rightarrow> StandardRouteWaypointModel list \<Rightarrow> StandardRouteWaypointModel list" where
  "updateWaypointsWithPreviousWaypointData F waypointModelList =
     fold (annotateWaypoint F) [0 ..< length waypointModelList] waypointModelList"

text \<open>\<open>findStandardWaypointModelsForEntryAndExit\<close>\<close>

definition findStandardWaypointModelsForEntryAndExit ::
  "fix_env \<Rightarrow> StandardRouteModel \<Rightarrow> js_string \<Rightarrow> js_string \<Rightarrow> bool
     \<Rightarrow> unit js_error + StandardRouteWaypointModel list" where
  "findStandardWaypointModelsForEntryAndExit F m entry exit isPreSpawn =
     (case findStandardWaypointModelsForRoute F m entry exit of
        Inl err \<Rightarrow> Inl err
      | Inr waypointList \<Rightarrow>
          Inr (if isPreSpawn then updateWaypointsWithPreviousWaypointData F waypointList
               else waypointList))"

subsection \<open>The annotation as the specification words it\<close>

text \<open>
  The waypoint at position \<open>i\<close> of a sequence after the pre-spawn pass: its predecessor
  is the waypoint at \<open>i - 1\<close>, or itself at position 0; it receives the planar distance
  to the predecessor in nautical miles and the predecessor's name.
\<close>

definition spec_annotated ::
  "fix_env \<Rightarrow> StandardRouteWaypointModel list \<Rightarrow> nat \<Rightarrow> StandardRouteWaypointModel" where
  "spec_annotated F ws i =
     (ws ! i)\<lparr>distanceFromPreviousWaypoint :=
                Some (nm F (distance2d (wp_position (ws ! (if i = 0 then 0 else i - 1)))
                                       (wp_position (ws ! i)))),
              previousStandardWaypointName :=
                Some (wp_name (ws ! (if i = 0 then 0 else i - 1)))\<rparr>"

subsection \<open>The fix list as the specification words it\<close>

text \<open>
  The fix of a fix-list element, the matching fixes of one side (nothing for an absent
  side, an empty name or a name that matches no segment; names are compared after
  normalisation, and a segment with an empty fix list is not in the collection), and all
  the fixes of the body.
\<close>

fun spec_fix :: "fix_input \<Rightarrow> js_string \<times> js_string option" where
  "spec_fix (FixName n) = (n, None)"
| "spec_fix (FixWithRestriction n r) = (n, Some r)"

definition spec_sideFixes ::
  "fix_env \<Rightarrow> segment_data option \<Rightarrow> js_string \<Rightarrow> (js_string \<times> js_string option) list" where
  "spec_sideFixes F side segmentName =
     (case side of
        None \<Rightarrow> []
      | Some entries \<Rightarrow>
          if segmentName = [] then []
          else (case find (\<lambda>(key, fixes). fixes \<noteq> [] \<and>
                             normalizeName F key = normalizeName F segmentName) entries of
                  None \<Rightarrow> []
                | Some (key, fixes) \<Rightarrow> map spec_fix fixes))"

definition spec_bodyFixes :: "fix_input list option \<Rightarrow> (js_string \<times> js_string option) list" where
  "spec_bodyFixes b = (case b of None \<Rightarrow> [] | Some fixes \<Rightarrow> map spec_fix fixes)"

subsection \<open>Two small procedures for concrete resolutions\<close>

definition example_fix_env :: fix_env where
  "example_fix_env =
     \<lparr>fix_position = (\<lambda>n. if n = js ''B'' then (3, 4) else (0, 0)),
      normalizeName = ascii_upper,
      nm_factor = 1 / 2\<rparr>"

definition example_sid :: route_definition where
  "example_sid =
     \<lparr>def_icao = Some (js ''SID1''),
      def_name = Some (js ''Sid One''),
      def_draw = Some [],
      def_rwy = Some [(js ''01L'', [FixName (js ''A''), FixName (js ''B'')])],
      def_body = Some [FixName (js ''C'')],
      def_exitPoints = Some [(js ''X'', [FixName (js ''D'')])],
      def_entryPoints = None\<rparr>"

definition example_star :: route_definition where
  "example_star =
     \<lparr>def_icao = Some (js ''STAR1''),
      def_name = Some (js ''Star One''),
      def_draw = Some [],
      def_rwy = Some [(js ''01L'', [FixName (js ''C'')])],
      def_body = Some [FixName (js ''B'')],
      def_exitPoints = None,
      def_entryPoints = Some [(js ''E'', [FixName (js ''A'')])]\<rparr>"

definition waypoint_at :: "js_string \<Rightarrow> position \<Rightarrow> StandardRouteWaypointModel" where
  "waypoint_at n p =
     \<lparr>wp_name = n, wp_restrictions = None, wp_position = p,
      distanceFromPreviousWaypoint = None, previousStandardWaypointName = None\<rparr>"

section \<open>Properties of the command parser\<close>

lemma js_split_not_Nil: "js_split sep s \<noteq> []"
  by (induction s) (auto split: list.splits)

lemma tokens_not_Nil: "tokens rawCommandWithArgs \<noteq> []"
  by (simp add: tokens_def js_split_not_Nil)

lemma scanToken_empty: "scanToken E [] s = Inr (None, s)"
  by (simp add: scanToken_def)

lemma scanToken_startsRecord:
  "startsRecord E t \<Longrightarrow> scanToken E t s = Inr (allocate (commandFor E t) s)"
  by (auto simp: scanToken_def startsRecord_def commandFor_def)

lemma scanToken_arg:
  "t \<noteq> [] \<Longrightarrow> \<not> startsRecord E t \<Longrightarrow>
   scanToken E t s =
     (case commandModel s of
        None \<Rightarrow> Inl TypeError
      | Some r \<Rightarrow> Inr (None, s\<lparr>heap := (heap s)[r := args_push (heap s ! r) (Some t)]\<rparr>))"
  by (auto simp: scanToken_def startsRecord_def)

lemma pendingArgs_simps:
  "pendingArgs E [] = []"
  "startsRecord E t \<Longrightarrow> pendingArgs E (t # ts) = []"
  "pendingArgs E ([] # ts) = pendingArgs E ts"
  "t \<noteq> [] \<Longrightarrow> \<not> startsRecord E t \<Longrightarrow> pendingArgs E (t # ts) = Some t # pendingArgs E ts"
  by (auto simp: pendingArgs_def startsRecord_def)

lemma not_startsRecord_Nil: "\<not> startsRecord E []"
  by (simp add: startsRecord_def)

lemma cmd_args_commandFor: "cmd_args (commandFor E t) = []"
  by (simp add: commandFor_def new_CommandModel_def)

lemma scan_open:
  "scanTokens E ts \<lparr>heap = h @ [c], commandModel = Some (length h)\<rparr> =
     Inr (mappedFrom E (Suc (length h)) ts,
          \<lparr>heap = h @ [c\<lparr>cmd_args := cmd_args c @ pendingArgs E ts\<rparr>] @ recordGroups E ts,
           commandModel = Some (length h + length (recordGroups E ts))\<rparr>)"
proof (induction ts arbitrary: h c)
  case Nil
  show ?case by (simp add: pendingArgs_simps)
next
  case (Cons t ts)
  show ?case
  proof (cases "t = []")
    case True
    then show ?thesis
      using Cons.IH [of h c]
      by (simp add: scanToken_empty pendingArgs_simps not_startsRecord_Nil)
  next
    case nonempty: False
    show ?thesis
    proof (cases "startsRecord E t")
      case True
      have "scanToken E t \<lparr>heap = h @ [c], commandModel = Some (length h)\<rparr> =
              Inr (Some (Suc (length h)),
                   \<lparr>heap = (h @ [c]) @ [commandFor E t], commandModel = Some (length (h @ [c]))\<rparr>)"
        using True by (simp add: scanToken_startsRecord allocate_def)
      then show ?thesis
        using True Cons.IH [of "h @ [c]" "commandFor E t"]
        by (simp add: pendingArgs_simps cmd_args_commandFor)
    next
      case False
      have "scanToken E t \<lparr>heap = h @ [c], commandModel = Some (length h)\<rparr> =
              Inr (None, \<lparr>heap = h @ [args_push c (Some t)], commandModel = Some (length h)\<rparr>)"
        using False nonempty by (simp add: scanToken_arg)
      then show ?thesis
        using False nonempty Cons.IH [of h "args_push c (Some t)"]
        by (simp add: pendingArgs_simps args_push_def)
    qed
  qed
qed

lemma compact_mappedFrom:
  "compact (mappedFrom E n ts) = [n ..< n + length (recordGroups E ts)]"
proof (induction ts arbitrary: n)
  case Nil
  show ?case by simp
next
  case (Cons t ts)
  have step: "[n ..< n + Suc k] = n # [Suc n ..< Suc n + k]" for k
    by (subst upt_rec) simp
  show ?case
  proof (cases "startsRecord E t")
    case True
    then show ?thesis
      using Cons.IH [of "Suc n"] step [of "length (recordGroups E ts)"]
      by (simp del: upt_Suc)
  next
    case False
    then show ?thesis
      using Cons.IH [of n] by simp
  qed
qed

lemma map_nth_append_upt:
  "map (\<lambda>r. (xs @ ys) ! r) [length xs ..< length xs + length ys] = ys"
  by (rule nth_equalityI) (simp_all add: nth_append)

lemma leadingTokenStartsRecord_simps:
  "leadingTokenStartsRecord E [] = True"
  "leadingTokenStartsRecord E ([] # ts) = leadingTokenStartsRecord E ts"
  "t \<noteq> [] \<Longrightarrow> leadingTokenStartsRecord E (t # ts) = startsRecord E t"
  by (simp_all add: leadingTokenStartsRecord_def)

lemma scan_init:
  "leadingTokenStartsRecord E ts \<Longrightarrow>
   \<exists>cm. scanTokens E ts \<lparr>heap = [], commandModel = None\<rparr> =
     Inr (mappedFrom E 0 ts, \<lparr>heap = recordGroups E ts, commandModel = cm\<rparr>)"
proof (induction ts)
  case Nil
  show ?case by simp
next
  case (Cons t ts)
  show ?case
  proof (cases "t = []")
    case True
    then show ?thesis
      using Cons by (auto simp: scanToken_empty leadingTokenStartsRecord_simps not_startsRecord_Nil)
  next
    case False
    then have r: "startsRecord E t"
      using Cons.prems by (simp add: leadingTokenStartsRecord_simps)
    have "scanToken E t \<lparr>heap = [], commandModel = None\<rparr> =
            Inr (Some 0, \<lparr>heap = [] @ [commandFor E t], commandModel = Some (length ([] :: 'b CommandModel list))\<rparr>)"
      using r by (simp add: scanToken_startsRecord allocate_def)
    then show ?thesis
      using r scan_open [of E ts "[]" "commandFor E t"]
      by (simp add: cmd_args_commandFor)
  qed
qed

lemma buildCommandList_valid:
  assumes "leadingTokenStartsRecord E ts"
  shows "buildCommandList E ts = Inr (recordGroups E ts)"
proof -
  obtain cm where
    "scanTokens E ts \<lparr>heap = [], commandModel = None\<rparr> =
       Inr (mappedFrom E 0 ts, \<lparr>heap = recordGroups E ts, commandModel = cm\<rparr>)"
    using scan_init [OF assms] by blast
  then show ?thesis
    using map_nth_append_upt [of "[]" "recordGroups E ts"]
    by (simp add: buildCommandList_def compact_mappedFrom)
qed




lemma errors_Nil_iff:
  "fst (validateCommandArguments E cl) = [] \<longleftrightarrow> (\<forall>c\<in>set cl. validateArgs E c = None)"
  by (induction cl) (auto simp: validateCommandArguments_def validateOne_def split: option.splits)

lemma records_after_valid_pass:
  "\<forall>c\<in>set cl. validateArgs E c = None \<Longrightarrow>
   snd (validateCommandArguments E cl) = map (parseArgs E) cl"
  by (induction cl) (auto simp: validateCommandArguments_def validateOne_def)

lemma validateAndParse_cases:
  "validateAndParseCommandArguments E q =
     (case fst (validateCommandArguments E (commandList q)) of
        [] \<Rightarrow> Inr (q\<lparr>commandList := snd (validateCommandArguments E (commandList q))\<rparr>)
      | e # es \<Rightarrow> Inl (Thrown e))"
  by (simp add: validateAndParseCommandArguments_def split: prod.splits list.splits)

lemma validateAndParse_Inr:
  assumes "validateAndParseCommandArguments E q = Inr p"
  shows "(\<forall>c\<in>set (commandList q). validateArgs E c = None) \<and>
         p = q\<lparr>commandList := map (parseArgs E) (commandList q)\<rparr>"
proof -
  have e: "fst (validateCommandArguments E (commandList q)) = []"
    using assms by (simp add: validateAndParse_cases split: list.splits)
  then have v: "\<forall>c\<in>set (commandList q). validateArgs E c = None"
    by (simp add: errors_Nil_iff)
  then show ?thesis
    using assms e by (simp add: validateAndParse_cases records_after_valid_pass)
qed

lemma validateAndParse_valid:
  assumes "\<forall>c\<in>set (commandList q). validateArgs E c = None"
  shows "validateAndParseCommandArguments E q =
           Inr (q\<lparr>commandList := map (parseArgs E) (commandList q)\<rparr>)"
proof -
  have "fst (validateCommandArguments E (commandList q)) = []"
    using assms by (simp add: errors_Nil_iff)
  then show ?thesis
    using assms by (simp add: validateAndParse_cases records_after_valid_pass)
qed

lemma validateAndParse_Inl:
  assumes "\<exists>c\<in>set (commandList q). validateArgs E c \<noteq> None"
  shows "\<exists>e. validateAndParseCommandArguments E q = Inl (Thrown e)"
proof -
  have "fst (validateCommandArguments E (commandList q)) \<noteq> []"
    using assms by (simp add: errors_Nil_iff)
  then show ?thesis
    by (cases "fst (validateCommandArguments E (commandList q))")
       (simp_all add: validateAndParse_cases)
qed

lemma new_CommandParser_cases:
  assumes "toks = tokens (toLowerCase E line)"
  shows "new_CommandParser E line =
     (if isSystemCommand E (hd toks)
      then validateAndParseCommandArguments E
             \<lparr>command = hd toks, callsign = [], commandList = [systemCommandModel toks]\<rparr>
      else (case buildCommandList E (tl toks) of
              Inl err \<Rightarrow> Inl err
            | Inr cl \<Rightarrow>
                validateAndParseCommandArguments E
                  \<lparr>command = SYSTEM_COMMANDS_transmit E, callsign = hd toks, commandList = cl\<rparr>))"
  using assms
  by (simp add: new_CommandParser_def extractCommandsAndArgs_def buildSystemCommandModel_def
      buildTransmitCommandModels_def Let_def split: sum.splits)

lemma new_CommandParser_Inr:
  assumes "new_CommandParser E line = Inr p"
  shows "\<exists>q. validateAndParseCommandArguments E q = Inr p"
  using assms
  by (auto simp: new_CommandParser_cases [OF refl] split: if_splits sum.splits)

lemma validateArgs_parseArgs: "validateArgs E (parseArgs E c) = validateArgs E c"
  by (simp add: validateArgs_def parseArgs_def)

lemmas example_defs =
  js_def tokens_def COMMAND_ARGS_SEPARATOR_def example_env_def example_COMMAND_MAP_def
  ascii_lower_def ascii_upper_def heading_270_def heading_no_args_def descend_no_args_def
  isSystemCommand_def startsRecord_def leadingTokenStartsRecord_def commandFor_def pendingArgs_def
  new_CommandModel_def args_push_def systemCommandModel_def
  validateCommandArguments_def validateOne_def validateArgs_def parseArgs_def
  validateAndParseCommandArguments_def

text \<open>
  Claim C1 (the code departs from it). The claim asks that a line in which two or more
  records fail validation surfaces all the collected errors as one batch.
  \<open>_validateCommandArguments\<close> does collect every error, but
  \<open>_validateAndParseCommandArguments\<close> throws inside the callback of \<open>_forEach\<close>: for a
  transmit line whose records give the errors \<open>e1, e2, \<dots>\<close>, constructing the parser
  raises \<open>e1\<close> alone, and the later errors reach nobody.
\<close>

theorem C1_only_first_error_surfaces:
  assumes "toks = tokens (toLowerCase E line)"
    and "\<not> isSystemCommand E (hd toks)"
    and "buildCommandList E (tl toks) = Inr cl"
    and "fst (validateCommandArguments E cl) = e1 # e2 # es"
  shows "new_CommandParser E line = Inl (Thrown e1)"
  using assms by (simp add: new_CommandParser_cases [OF refl] validateAndParse_cases)

theorem C1_only_first_error_surfaces_witness:
  "\<not> isSystemCommand example_env (hd (tokens (toLowerCase example_env (js ''aa777 fh d''))))
   \<and> buildCommandList example_env (tl (tokens (toLowerCase example_env (js ''aa777 fh d''))))
       = Inr [heading_no_args, descend_no_args]
   \<and> fst (validateCommandArguments example_env [heading_no_args, descend_no_args])
       = [js ''heading'', js ''descend'']
   \<and> new_CommandParser example_env (js ''aa777 fh d'') = Inl (Thrown (js ''heading''))"
proof -
  let ?toks = "tokens (toLowerCase example_env (js ''aa777 fh d''))"
  have a: "\<not> isSystemCommand example_env (hd ?toks)"
    by (simp add: example_defs)
  have l: "leadingTokenStartsRecord example_env (tl ?toks)"
    by (simp add: example_defs)
  have b: "buildCommandList example_env (tl ?toks) = Inr [heading_no_args, descend_no_args]"
    unfolding buildCommandList_valid [OF l] by (simp add: example_defs)
  have c: "fst (validateCommandArguments example_env [heading_no_args, descend_no_args])
             = [js ''heading'', js ''descend'']"
    by (simp add: example_defs)
  show ?thesis
    using a b c C1_only_first_error_surfaces [OF refl a b c] by simp
qed

text \<open>
  Claim C2 as stated fails: on the line \<open>aa777 fh 270 d\<close> the record for \<open>d\<close> fails
  validation, and the pass of \<open>_validateCommandArguments\<close> has nonetheless parsed the
  record for \<open>fh\<close> in place.
\<close>

theorem C2_counterexample:
  "buildCommandList example_env (tl (tokens (toLowerCase example_env (js ''aa777 fh 270 d''))))
     = Inr [heading_270, descend_no_args]
   \<and> validateCommandArguments example_env [heading_270, descend_no_args]
     = ([js ''descend''], [heading_270\<lparr>parsedArgs := Some [js ''270'']\<rparr>, descend_no_args])"
proof -
  let ?toks = "tokens (toLowerCase example_env (js ''aa777 fh 270 d''))"
  have l: "leadingTokenStartsRecord example_env (tl ?toks)"
    by (simp add: example_defs)
  have b: "buildCommandList example_env (tl ?toks) = Inr [heading_270, descend_no_args]"
    unfolding buildCommandList_valid [OF l] by (simp add: example_defs)
  have c: "validateCommandArguments example_env [heading_270, descend_no_args]
     = ([js ''descend''], [heading_270\<lparr>parsedArgs := Some [js ''270'']\<rparr>, descend_no_args])"
    by (simp add: example_defs)
  show ?thesis using b c by simp
qed

text \<open>
  Claim C2, amended. What holds is all-or-nothing for the caller. If any record that the
  line builds fails validation (the one record of a system line, or a record of the list
  that \<open>_buildCommandList\<close> returns for a transmit line), constructing the parser raises
  and no command list is returned; if no record fails, the constructor returns the
  records of the line, each of them parsed; and whenever the constructor returns, every
  record of its command list has passed validation and carries its parsed arguments.
\<close>

theorem C2_all_or_nothing_for_the_caller:
  assumes "toks = tokens (toLowerCase E line)"
  shows "(isSystemCommand E (hd toks) \<and> validateArgs E (systemCommandModel toks) \<noteq> None \<longrightarrow>
            (\<exists>e. new_CommandParser E line = Inl (Thrown e)))
    \<and> (\<forall>cl. \<not> isSystemCommand E (hd toks) \<and> buildCommandList E (tl toks) = Inr cl \<and>
              (\<exists>c\<in>set cl. validateArgs E c \<noteq> None) \<longrightarrow>
            (\<exists>e. new_CommandParser E line = Inl (Thrown e)))
    \<and> (isSystemCommand E (hd toks) \<and> validateArgs E (systemCommandModel toks) = None \<longrightarrow>
            (\<exists>p. new_CommandParser E line = Inr p \<and>
                 commandList p = [parseArgs E (systemCommandModel toks)]))
    \<and> (\<forall>cl. \<not> isSystemCommand E (hd toks) \<and> buildCommandList E (tl toks) = Inr cl \<and>
              (\<forall>c\<in>set cl. validateArgs E c = None) \<longrightarrow>
            (\<exists>p. new_CommandParser E line = Inr p \<and> commandList p = map (parseArgs E) cl))
    \<and> (\<forall>p. new_CommandParser E line = Inr p \<longrightarrow>
          (\<forall>c\<in>set (commandList p).
             validateArgs E c = None \<and>
             parsedArgs c = Some (parse E (cmd_name c) (cmd_args c))))"
proof (intro conjI allI impI)
  assume a: "isSystemCommand E (hd toks) \<and> validateArgs E (systemCommandModel toks) \<noteq> None"
  let ?q = "\<lparr>command = hd toks, callsign = [], commandList = [systemCommandModel toks]\<rparr>"
  have "\<exists>c\<in>set (commandList ?q). validateArgs E c \<noteq> None"
    using a by simp
  then have "\<exists>e. validateAndParseCommandArguments E ?q = Inl (Thrown e)"
    by (rule validateAndParse_Inl)
  then show "\<exists>e. new_CommandParser E line = Inl (Thrown e)"
    using a by (simp add: new_CommandParser_cases [OF assms])
next
  fix cl
  assume a: "\<not> isSystemCommand E (hd toks) \<and> buildCommandList E (tl toks) = Inr cl \<and>
              (\<exists>c\<in>set cl. validateArgs E c \<noteq> None)"
  let ?q = "\<lparr>command = SYSTEM_COMMANDS_transmit E, callsign = hd toks, commandList = cl\<rparr>"
  have "\<exists>c\<in>set (commandList ?q). validateArgs E c \<noteq> None"
    using a by simp
  then have "\<exists>e. validateAndParseCommandArguments E ?q = Inl (Thrown e)"
    by (rule validateAndParse_Inl)
  then show "\<exists>e. new_CommandParser E line = Inl (Thrown e)"
    using a by (simp add: new_CommandParser_cases [OF assms])
next
  assume a: "isSystemCommand E (hd toks) \<and> validateArgs E (systemCommandModel toks) = None"
  let ?q = "\<lparr>command = hd toks, callsign = [], commandList = [systemCommandModel toks]\<rparr>"
  have "validateAndParseCommandArguments E ?q =
          Inr (?q\<lparr>commandList := map (parseArgs E) (commandList ?q)\<rparr>)"
    using a by (intro validateAndParse_valid) simp
  then show "\<exists>p. new_CommandParser E line = Inr p \<and>
                 commandList p = [parseArgs E (systemCommandModel toks)]"
    using a by (simp add: new_CommandParser_cases [OF assms])
next
  fix cl
  assume a: "\<not> isSystemCommand E (hd toks) \<and> buildCommandList E (tl toks) = Inr cl \<and>
              (\<forall>c\<in>set cl. validateArgs E c = None)"
  let ?q = "\<lparr>command = SYSTEM_COMMANDS_transmit E, callsign = hd toks, commandList = cl\<rparr>"
  have "validateAndParseCommandArguments E ?q =
          Inr (?q\<lparr>commandList := map (parseArgs E) (commandList ?q)\<rparr>)"
    using a by (intro validateAndParse_valid) simp
  then show "\<exists>p. new_CommandParser E line = Inr p \<and> commandList p = map (parseArgs E) cl"
    using a by (simp add: new_CommandParser_cases [OF assms])
next
  fix p
  assume "new_CommandParser E line = Inr p"
  then obtain q where "validateAndParseCommandArguments E q = Inr p"
    using new_CommandParser_Inr by blast
  then have "(\<forall>c\<in>set (commandList q). validateArgs E c = None) \<and>
         p = q\<lparr>commandList := map (parseArgs E) (commandList q)\<rparr>"
    by (rule validateAndParse_Inr)
  then show "\<forall>c\<in>set (commandList p).
         validateArgs E c = None \<and> parsedArgs c = Some (parse E (cmd_name c) (cmd_args c))"
    by (auto simp: validateArgs_parseArgs) (simp add: parseArgs_def)
qed

theorem C2_all_or_nothing_for_the_caller_witness:
  "\<not> isSystemCommand example_env
        (hd (tokens (toLowerCase example_env (js ''aa777 fh 270 d''))))
   \<and> buildCommandList example_env
        (tl (tokens (toLowerCase example_env (js ''aa777 fh 270 d''))))
       = Inr [heading_270, descend_no_args]
   \<and> validateArgs example_env descend_no_args \<noteq> None
   \<and> (\<exists>e. new_CommandParser example_env (js ''aa777 fh 270 d'') = Inl (Thrown e))
   \<and> buildCommandList example_env
        (tl (tokens (toLowerCase example_env (js ''aa777 fh 270''))))
       = Inr [heading_270]
   \<and> validateArgs example_env heading_270 = None
   \<and> (\<exists>p. new_CommandParser example_env (js ''aa777 fh 270'') = Inr p \<and>
          commandList p = [heading_270\<lparr>parsedArgs := Some [js ''270'']\<rparr>])"
proof -
  let ?bad = "js ''aa777 fh 270 d''"
  let ?good = "js ''aa777 fh 270''"
  let ?tb = "tokens (toLowerCase example_env ?bad)"
  let ?tg = "tokens (toLowerCase example_env ?good)"
  have sb: "\<not> isSystemCommand example_env (hd ?tb)"
    by (simp add: example_defs)
  have sg: "\<not> isSystemCommand example_env (hd ?tg)"
    by (simp add: example_defs)
  have lb: "leadingTokenStartsRecord example_env (tl ?tb)"
    by (simp add: example_defs)
  have lg: "leadingTokenStartsRecord example_env (tl ?tg)"
    by (simp add: example_defs)
  have bb: "buildCommandList example_env (tl ?tb) = Inr [heading_270, descend_no_args]"
    unfolding buildCommandList_valid [OF lb] by (simp add: example_defs)
  have bg: "buildCommandList example_env (tl ?tg) = Inr [heading_270]"
    unfolding buildCommandList_valid [OF lg] by (simp add: example_defs)
  have vd: "validateArgs example_env descend_no_args \<noteq> None"
    by (simp add: example_defs)
  have vh: "validateArgs example_env heading_270 = None"
    by (simp add: example_defs)
  have ph: "parseArgs example_env heading_270 = heading_270\<lparr>parsedArgs := Some [js ''270'']\<rparr>"
    by (simp add: example_defs)
  have raise: "\<exists>e. new_CommandParser example_env ?bad = Inl (Thrown e)"
    using C2_all_or_nothing_for_the_caller [OF refl, of example_env ?bad] sb bb vd
    by simp
  have ret: "\<exists>p. new_CommandParser example_env ?good = Inr p \<and>
          commandList p = [heading_270\<lparr>parsedArgs := Some [js ''270'']\<rparr>]"
    using C2_all_or_nothing_for_the_caller [OF refl, of example_env ?good] sg bg vh ph
    by simp
  show ?thesis
    using sb bb vd raise bg vh ret by simp
qed

lemma length_recordGroups:
  "length (recordGroups E ts) = length (filter (startsRecord E) ts)"
  by (induction ts) simp_all

lemma names_recordGroups:
  "map cmd_name (recordGroups E ts) =
     map (\<lambda>t. cmd_name (commandFor E t)) (filter (startsRecord E) ts)"
  by (induction ts) simp_all

lemma drop_recordGroups:
  "drop (length (filter (startsRecord E) pre)) (recordGroups E (pre @ ts)) =
     recordGroups E ts"
  by (induction pre) simp_all

lemma pendingArgs_run:
  assumes "\<forall>t\<in>set mid. \<not> startsRecord E t" and "post = [] \<or> startsRecord E (hd post)"
  shows "pendingArgs E (mid @ post) = map Some (filter (\<lambda>t. t \<noteq> []) mid)"
proof -
  have "takeWhile (\<lambda>t. \<not> startsRecord E t) post = []"
    using assms(2) by (cases post) auto
  then show ?thesis
    using assms(1) by (simp add: pendingArgs_def takeWhile_append2)
qed

lemma group_of_run:
  assumes "startsRecord E c" and "\<forall>t\<in>set mid. \<not> startsRecord E t"
    and "post = [] \<or> startsRecord E (hd post)"
  shows "recordGroups E (pre @ c # mid @ post) ! length (filter (startsRecord E) pre) =
           (commandFor E c)\<lparr>cmd_args := map Some (filter (\<lambda>t. t \<noteq> []) mid)\<rparr>"
proof -
  let ?k = "length (filter (startsRecord E) pre)"
  let ?g = "recordGroups E (pre @ c # mid @ post)"
  have d: "drop ?k ?g = recordGroups E (c # mid @ post)"
    by (rule drop_recordGroups)
  have "?k < length ?g"
    using assms(1) by (simp add: length_recordGroups)
  then have "?g ! ?k = hd (drop ?k ?g)"
    by (simp add: hd_drop_conv_nth)
  then show ?thesis
    using d assms by (simp add: pendingArgs_run)
qed
















lemma hd_take_2: "hd (take 2 xs) = hd xs"
  by (cases xs) simp_all

lemma js_nth_take_2: "js_nth (take 2 xs) (Suc 0) = js_nth xs (Suc 0)"
proof (cases xs)
  case Nil
  then show ?thesis by simp
next
  case (Cons x ys)
  then show ?thesis by (cases ys) (simp_all add: numeral_2_eq_2)
qed

lemma systemCommandModel_eq:
  "systemCommandModel toks =
     \<lparr>cmd_name = Some (hd toks), cmd_args = [js_nth toks 1], parsedArgs = None\<rparr>"
  by (simp add: systemCommandModel_def new_CommandModel_def args_push_def)

lemma systemCommandModel_take_2: "systemCommandModel (take 2 toks) = systemCommandModel toks"
  by (simp add: systemCommandModel_eq hd_take_2 js_nth_take_2)

text \<open>
  Claim C7. For a line whose first token is a system command (and not the transmit
  marker), the parser validates exactly one record, named by the first token, whose
  argument list has one entry: the second token, or \<open>undefined\<close> when the line has no
  second token. When the constructor returns, its command list is that record, parsed.
  Tokens beyond the second are not consulted: a line with the same first two tokens
  gives the same result.
\<close>

theorem C7_system_line:
  assumes "toks = tokens (toLowerCase E line)"
    and "isSystemCommand E (hd toks)"
  shows "new_CommandParser E line =
           validateAndParseCommandArguments E
             \<lparr>command = hd toks, callsign = [],
              commandList =
                [\<lparr>cmd_name = Some (hd toks), cmd_args = [js_nth toks 1], parsedArgs = None\<rparr>]\<rparr>
    \<and> (\<forall>p. new_CommandParser E line = Inr p \<longrightarrow>
          commandList p =
            [\<lparr>cmd_name = Some (hd toks), cmd_args = [js_nth toks 1],
              parsedArgs = Some (parse E (Some (hd toks)) [js_nth toks 1])\<rparr>])
    \<and> (\<forall>other. take 2 (tokens (toLowerCase E other)) = take 2 toks \<longrightarrow>
          new_CommandParser E other = new_CommandParser E line)"
proof (intro conjI allI impI)
  show n: "new_CommandParser E line =
           validateAndParseCommandArguments E
             \<lparr>command = hd toks, callsign = [],
              commandList =
                [\<lparr>cmd_name = Some (hd toks), cmd_args = [js_nth toks 1], parsedArgs = None\<rparr>]\<rparr>"
    using assms by (simp add: new_CommandParser_cases [OF refl] systemCommandModel_eq)
  fix p
  let ?q = "\<lparr>command = hd toks, callsign = [],
              commandList =
                [\<lparr>cmd_name = Some (hd toks), cmd_args = [js_nth toks 1],
                  parsedArgs = (None :: 'b list option)\<rparr>]\<rparr>"
  assume "new_CommandParser E line = Inr p"
  then have "validateAndParseCommandArguments E ?q = Inr p"
    using n by simp
  then have "p = ?q\<lparr>commandList := map (parseArgs E) (commandList ?q)\<rparr>"
    using validateAndParse_Inr [of E ?q p] by blast
  then show "commandList p =
            [\<lparr>cmd_name = Some (hd toks), cmd_args = [js_nth toks 1],
              parsedArgs = Some (parse E (Some (hd toks)) [js_nth toks 1])\<rparr>]"
    by (simp add: parseArgs_def)
next
  fix other
  let ?o = "tokens (toLowerCase E other)"
  assume t: "take 2 ?o = take 2 toks"
  have h: "hd ?o = hd toks"
    using t hd_take_2 [of ?o] hd_take_2 [of toks] by metis
  have m: "systemCommandModel ?o = systemCommandModel toks"
    using t systemCommandModel_take_2 [of ?o] systemCommandModel_take_2 [of toks] by metis
  have s: "isSystemCommand E (hd ?o)"
    using assms(2) h by simp
  have "new_CommandParser E other =
          validateAndParseCommandArguments E
            \<lparr>command = hd ?o, callsign = [], commandList = [systemCommandModel ?o]\<rparr>"
    using s by (simp add: new_CommandParser_cases [OF refl])
  also have "\<dots> =
          validateAndParseCommandArguments E
            \<lparr>command = hd toks, callsign = [], commandList = [systemCommandModel toks]\<rparr>"
    by (simp only: h m)
  also have "\<dots> = new_CommandParser E line"
    using assms by (simp add: new_CommandParser_cases [OF refl])
  finally show "new_CommandParser E other = new_CommandParser E line" .
qed

theorem C7_system_line_witness:
  "isSystemCommand example_env (hd (tokens (toLowerCase example_env (js ''timewarp 50''))))
   \<and> new_CommandParser example_env (js ''timewarp 50'')
       = Inr \<lparr>command = js ''timewarp'', callsign = [],
              commandList = [\<lparr>cmd_name = Some (js ''timewarp''), cmd_args = [Some (js ''50'')],
                               parsedArgs = Some [js ''50'']\<rparr>]\<rparr>
   \<and> new_CommandParser example_env (js ''TIMEWARP 50 fh 270'')
       = new_CommandParser example_env (js ''timewarp 50'')"
proof -
  let ?toks = "tokens (toLowerCase example_env (js ''timewarp 50''))"
  have a: "isSystemCommand example_env (hd ?toks)"
    by (simp add: example_defs)
  have t: "take 2 (tokens (toLowerCase example_env (js ''TIMEWARP 50 fh 270''))) = take 2 ?toks"
    by (simp add: example_defs)
  have v: "validateAndParseCommandArguments example_env
             \<lparr>command = hd ?toks, callsign = [],
              commandList =
                [\<lparr>cmd_name = Some (hd ?toks), cmd_args = [js_nth ?toks 1], parsedArgs = None\<rparr>]\<rparr>
           = Inr \<lparr>command = js ''timewarp'', callsign = [],
              commandList = [\<lparr>cmd_name = Some (js ''timewarp''), cmd_args = [Some (js ''50'')],
                               parsedArgs = Some [js ''50'']\<rparr>]\<rparr>"
    by (simp add: example_defs)
  show ?thesis
    using C7_system_line [OF refl a] a t v by simp
qed




section \<open>Properties of the procedure model\<close>

lemma compact_map_Some: "compact (map Some xs) = xs"
  by (induction xs) simp_all

lemma generateFixList_append: "generateFixList a b c = a @ b @ c"
  unfolding generateFixList_def by (rule compact_map_Some)

lemma wp_fix_new: "wp_fix (new_StandardRouteWaypointModel F x) = spec_fix x"
  by (cases x) (simp_all add: wp_fix_def)

lemma findWaypointsForSegment_new:
  "findWaypointsForSegment (new_RouteSegmentModel F n (Some fixes)) = map spec_fix fixes"
  by (simp add: findWaypointsForSegment_def new_RouteSegmentModel_def wp_fix_new)

lemma find_segment_in_new_collection:
  "find (\<lambda>seg. normalizeName F (seg_name seg) = u)
     (map (\<lambda>(key, fixes). new_RouteSegmentModel F key (Some fixes))
        (filter (\<lambda>(key, fixes). fixes \<noteq> []) entries)) =
   map_option (\<lambda>(key, fixes). new_RouteSegmentModel F key (Some fixes))
     (find (\<lambda>(key, fixes). fixes \<noteq> [] \<and> normalizeName F key = u) entries)"
  by (induction entries) (auto simp: new_RouteSegmentModel_def)

lemma findWaypointsForSegmentName_new:
  "findWaypointsForSegmentName F (new_RouteSegmentCollection F entries) n =
     (case find (\<lambda>(key, fixes). fixes \<noteq> [] \<and> normalizeName F key = normalizeName F n) entries of
        None \<Rightarrow> []
      | Some (key, fixes) \<Rightarrow> map spec_fix fixes)"
  by (simp add: findWaypointsForSegmentName_def findSegmentByName_def
      new_RouteSegmentCollection_def find_segment_in_new_collection
      findWaypointsForSegment_new split: option.splits)

lemma side_fixes:
  assumes "get_original m originalName = Some x \<or> side = None"
    and "get_collection m colName = buildSegmentCollection F side"
  shows "findFixListInByCollectionAndSegmentName F m originalName colName n =
           spec_sideFixes F side n"
proof (cases side)
  case None
  then show ?thesis
    using assms(2)
    by (simp add: findFixListInByCollectionAndSegmentName_def spec_sideFixes_def
        buildSegmentCollection_def)
next
  case (Some entries)
  then have o: "get_original m originalName = Some x"
    using assms(1) by simp
  show ?thesis
  proof (cases "entries = []")
    case True
    then show ?thesis
      using assms(2) Some
      by (simp add: findFixListInByCollectionAndSegmentName_def spec_sideFixes_def
          buildSegmentCollection_def)
  next
    case False
    then show ?thesis
      using assms(2) Some o
      by (simp add: findFixListInByCollectionAndSegmentName_def spec_sideFixes_def
          buildSegmentCollection_def findWaypointsForSegmentName_new)
  qed
qed

lemma new_model_fields:
  "rwy (new_StandardRouteModel F d) = def_rwy d"
  "body (new_StandardRouteModel F d) = def_body d"
  "exitPoints (new_StandardRouteModel F d) = get_or_empty (def_exitPoints d)"
  "entryPoints (new_StandardRouteModel F d) = get_or_empty (def_entryPoints d)"
  "bodySegmentModel (new_StandardRouteModel F d) = Some (buildSegmentModel F (def_body d))"
  by (simp_all add: new_StandardRouteModel_def init_def buildEntryAndExitCollections_def)

lemma new_model_collections:
  "entryCollection (new_StandardRouteModel F d) =
     (if def_entryPoints d \<noteq> None then buildSegmentCollection F (def_entryPoints d)
      else if def_exitPoints d \<noteq> None then buildSegmentCollection F (def_rwy d)
      else None)"
  "exitCollection (new_StandardRouteModel F d) =
     (if def_entryPoints d \<noteq> None then buildSegmentCollection F (def_rwy d)
      else if def_exitPoints d \<noteq> None then buildSegmentCollection F (def_exitPoints d)
      else None)"
  by (simp_all add: new_StandardRouteModel_def init_def buildEntryAndExitCollections_def)

lemma findBodyFixList_new:
  "findBodyFixList (new_StandardRouteModel F d) = Inr (spec_bodyFixes (def_body d))"
  by (simp add: findBodyFixList_def new_model_fields spec_bodyFixes_def buildSegmentModel_def
      findWaypointsForSegment_new split: option.splits)

lemma get_or_empty_Some: "\<exists>x. get_or_empty v = Some x"
  by (cases v) (simp_all add: get_or_empty_def)

lemma sid_fix_list:
  assumes "def_entryPoints d = None" and "def_exitPoints d \<noteq> None"
  shows "findFixListForSidByRunwayAndExit F (new_StandardRouteModel F d) r e =
           Inr (spec_sideFixes F (def_rwy d) r @ spec_bodyFixes (def_body d) @
                spec_sideFixes F (def_exitPoints d) e)"
proof -
  let ?m = "new_StandardRouteModel F d"
  have en: "findFixListInByCollectionAndSegmentName F ?m Rwy EntryCollection r =
              spec_sideFixes F (def_rwy d) r"
  proof (rule side_fixes)
    show "get_original ?m Rwy = Some (the (def_rwy d)) \<or> def_rwy d = None"
      by (cases "def_rwy d") (simp_all add: new_model_fields)
    show "get_collection ?m EntryCollection = buildSegmentCollection F (def_rwy d)"
      using assms by (simp add: new_model_collections)
  qed
  obtain x where x: "get_or_empty (def_exitPoints d) = Some x"
    using get_or_empty_Some by blast
  have ex: "findFixListInByCollectionAndSegmentName F ?m ExitPoints ExitCollection e =
              spec_sideFixes F (def_exitPoints d) e"
  proof (rule side_fixes)
    show "get_original ?m ExitPoints = Some x \<or> def_exitPoints d = None"
      using x by (simp add: new_model_fields)
    show "get_collection ?m ExitCollection = buildSegmentCollection F (def_exitPoints d)"
      using assms by (simp add: new_model_collections)
  qed
  show ?thesis
    by (simp add: findFixListForSidByRunwayAndExit_def en ex findBodyFixList_new
        generateFixList_append)
qed

lemma star_fix_list:
  assumes "def_entryPoints d \<noteq> None"
  shows "findFixListForStarByEntryAndRunway F (new_StandardRouteModel F d) e r =
           Inr (spec_sideFixes F (def_entryPoints d) e @ spec_bodyFixes (def_body d) @
                spec_sideFixes F (def_rwy d) r)"
proof -
  let ?m = "new_StandardRouteModel F d"
  obtain x where x: "get_or_empty (def_entryPoints d) = Some x"
    using get_or_empty_Some by blast
  have en: "findFixListInByCollectionAndSegmentName F ?m EntryPoints EntryCollection e =
              spec_sideFixes F (def_entryPoints d) e"
  proof (rule side_fixes)
    show "get_original ?m EntryPoints = Some x \<or> def_entryPoints d = None"
      using x by (simp add: new_model_fields)
    show "get_collection ?m EntryCollection = buildSegmentCollection F (def_entryPoints d)"
      using assms by (simp add: new_model_collections)
  qed
  have ex: "findFixListInByCollectionAndSegmentName F ?m Rwy ExitCollection r =
              spec_sideFixes F (def_rwy d) r"
  proof (rule side_fixes)
    show "get_original ?m Rwy = Some (the (def_rwy d)) \<or> def_rwy d = None"
      by (cases "def_rwy d") (simp_all add: new_model_fields)
    show "get_collection ?m ExitCollection = buildSegmentCollection F (def_rwy d)"
      using assms by (simp add: new_model_collections)
  qed
  show ?thesis
    by (simp add: findFixListForStarByEntryAndRunway_def en ex findBodyFixList_new
        generateFixList_append)
qed

lemmas route_example_defs =
  js_def example_fix_env_def example_sid_def example_star_def ascii_upper_def
  spec_sideFixes_def spec_bodyFixes_def

text \<open>
  Claim C5. For a procedure model built from a SID definition (\<open>exitPoints\<close> present,
  \<open>entryPoints\<close> absent), fix-list resolution for a runway and an exit returns the
  matching fixes of \<open>rwy\<close>, then all the body fixes, then the matching fixes of
  \<open>exitPoints\<close>, in that order and with nothing removed; for one built from a STAR
  definition (\<open>entryPoints\<close> present), resolution for an entry and a runway returns the
  matching fixes of \<open>entryPoints\<close>, the body fixes and the matching fixes of \<open>rwy\<close>. The
  SID with \<open>rwy: {"01L": ["A","B"]}\<close>, \<open>body: ["C"]\<close>, \<open>exitPoints: {"X": ["D"]}\<close>
  resolved for runway \<open>01L\<close> and exit \<open>X\<close> gives the fixes A, B, C, D.
\<close>

theorem C5_fix_list_order:
  "(def_entryPoints d = None \<and> def_exitPoints d \<noteq> None \<longrightarrow>
      findFixesAndRestrictionsForRunwayAndExit F (new_StandardRouteModel F d) runwayName exitFixName =
        Inr (spec_sideFixes F (def_rwy d) runwayName @ spec_bodyFixes (def_body d) @
             spec_sideFixes F (def_exitPoints d) exitFixName))
   \<and> (def_entryPoints d \<noteq> None \<longrightarrow>
      findFixesAndRestrictionsForEntryAndRunway F (new_StandardRouteModel F d) entryFixName runwayName =
        Inr (spec_sideFixes F (def_entryPoints d) entryFixName @ spec_bodyFixes (def_body d) @
             spec_sideFixes F (def_rwy d) runwayName))
   \<and> findFixesAndRestrictionsForRunwayAndExit example_fix_env
        (new_StandardRouteModel example_fix_env example_sid) (js ''01L'') (js ''X'') =
        Inr [(js ''A'', None), (js ''B'', None), (js ''C'', None), (js ''D'', None)]"
proof (intro conjI impI)
  assume "def_entryPoints d = None \<and> def_exitPoints d \<noteq> None"
  then show "findFixesAndRestrictionsForRunwayAndExit F (new_StandardRouteModel F d) runwayName exitFixName =
        Inr (spec_sideFixes F (def_rwy d) runwayName @ spec_bodyFixes (def_body d) @
             spec_sideFixes F (def_exitPoints d) exitFixName)"
    by (simp add: findFixesAndRestrictionsForRunwayAndExit_def sid_fix_list)
next
  assume "def_entryPoints d \<noteq> None"
  then show "findFixesAndRestrictionsForEntryAndRunway F (new_StandardRouteModel F d) entryFixName runwayName =
        Inr (spec_sideFixes F (def_entryPoints d) entryFixName @ spec_bodyFixes (def_body d) @
             spec_sideFixes F (def_rwy d) runwayName)"
    by (simp add: findFixesAndRestrictionsForEntryAndRunway_def star_fix_list)
next
  have "def_entryPoints example_sid = None" "def_exitPoints example_sid \<noteq> None"
    by (simp_all add: example_sid_def)
  then have "findFixListForSidByRunwayAndExit example_fix_env
        (new_StandardRouteModel example_fix_env example_sid) (js ''01L'') (js ''X'') =
      Inr (spec_sideFixes example_fix_env (def_rwy example_sid) (js ''01L'') @
           spec_bodyFixes (def_body example_sid) @
           spec_sideFixes example_fix_env (def_exitPoints example_sid) (js ''X''))"
    by (rule sid_fix_list)
  then show "findFixesAndRestrictionsForRunwayAndExit example_fix_env
        (new_StandardRouteModel example_fix_env example_sid) (js ''01L'') (js ''X'') =
        Inr [(js ''A'', None), (js ''B'', None), (js ''C'', None), (js ''D'', None)]"
    by (simp add: findFixesAndRestrictionsForRunwayAndExit_def route_example_defs)
qed

theorem C5_fix_list_order_witness:
  "def_entryPoints example_star \<noteq> None
   \<and> findFixesAndRestrictionsForEntryAndRunway example_fix_env
        (new_StandardRouteModel example_fix_env example_star) (js ''e'') (js ''01l'') =
        Inr [(js ''A'', None), (js ''B'', None), (js ''C'', None)]
   \<and> def_entryPoints example_sid = None \<and> def_exitPoints example_sid \<noteq> None
   \<and> findFixesAndRestrictionsForRunwayAndExit example_fix_env
        (new_StandardRouteModel example_fix_env example_sid) (js ''01L'') (js ''x'') =
        Inr [(js ''A'', None), (js ''B'', None), (js ''C'', None), (js ''D'', None)]"
  using C5_fix_list_order [of example_star example_fix_env "js ''01l''" "[]" "js ''e''"]
    C5_fix_list_order [of example_sid example_fix_env "js ''01L''" "js ''x''" "[]"]
  by (simp add: route_example_defs)

lemmas route_defs =
  new_StandardRouteModel_def init_def buildEntryAndExitCollections_def buildSegmentCollection_def
  buildSegmentModel_def new_RouteSegmentCollection_def new_RouteSegmentModel_def get_or_empty_def
  findStandardWaypointModelsForEntryAndExit_def findStandardWaypointModelsForRoute_def
  segmentItemsFor_def findSegmentByName_def generateFixList_def
  findFixesAndRestrictionsForRunwayAndExit_def findFixListForSidByRunwayAndExit_def
  findFixListInByCollectionAndSegmentName_def findBodyFixList_def findWaypointsForSegmentName_def
  findWaypointsForSegment_def wp_fix_def reset_def

lemma fix_list_resolution_returns:
  "\<exists>fixes. findFixListForSidByRunwayAndExit F (new_StandardRouteModel F d) r e = Inr fixes"
  by (simp add: findFixListForSidByRunwayAndExit_def findBodyFixList_new)

lemma empty_name_contributes_nothing:
  "findFixListInByCollectionAndSegmentName F m originalName colName [] = []"
  by (simp add: findFixListInByCollectionAndSegmentName_def)

lemma waypoint_resolution_null_collections:
  assumes "entryCollection m = None" and "exitCollection m = None"
    and "bodySegmentModel m = Some seg"
  shows "findStandardWaypointModelsForRoute F m entry exit = Inr (seg_items seg)"
  using assms
  by (simp add: findStandardWaypointModelsForRoute_def segmentItemsFor_def
      generateFixList_append)

lemma waypoint_resolution_entry_miss_raises:
  assumes "entryCollection m = Some col" and "findSegmentByName F col entry = None"
  shows "findStandardWaypointModelsForRoute F m entry exit = Inl TypeError"
  using assms by (simp add: findStandardWaypointModelsForRoute_def segmentItemsFor_def)

lemma waypoint_resolution_exit_miss_raises:
  assumes "exitCollection m = Some col" and "findSegmentByName F col exit = None"
  shows "findStandardWaypointModelsForRoute F m entry exit = Inl TypeError"
  using assms
  by (simp add: findStandardWaypointModelsForRoute_def segmentItemsFor_def
      split: option.splits sum.splits)

text \<open>
  Claim C4 (the code departs from it). The claim asks that a side whose requested
  segment name is empty or matches no segment contributes nothing, in fix-list and in
  waypoint resolution alike. Fix-list resolution does so (its third case below: an empty
  exit name gives the runway and body fixes). Waypoint resolution guards only against a
  \<open>null\<close> collection: with a collection present and a name that finds no segment, it
  reads \<open>.items\<close> of the nil lookup result and raises a \<open>TypeError\<close>, for the empty exit
  name and for the unmatched exit name \<open>Y\<close>.
\<close>

theorem C4_waypoint_resolution_raises:
  "findStandardWaypointModelsForEntryAndExit example_fix_env
     (new_StandardRouteModel example_fix_env example_sid) (js ''01L'') [] False = Inl TypeError
   \<and> findStandardWaypointModelsForEntryAndExit example_fix_env
     (new_StandardRouteModel example_fix_env example_sid) (js ''01L'') (js ''Y'') False = Inl TypeError
   \<and> findFixesAndRestrictionsForRunwayAndExit example_fix_env
     (new_StandardRouteModel example_fix_env example_sid) (js ''01L'') [] =
       Inr [(js ''A'', None), (js ''B'', None), (js ''C'', None)]"
  by (simp add: route_defs route_example_defs)

text \<open>
  Claim C8. A procedure model constructed from a definition with \<open>entryPoints\<close> has its
  entry collection built from \<open>entryPoints\<close> and its exit collection from \<open>rwy\<close>; from a
  definition with \<open>exitPoints\<close> (and, as the definition format has one of the two keys,
  without \<open>entryPoints\<close>, whose branch is tested first) the entry collection is built
  from \<open>rwy\<close> and the exit collection from \<open>exitPoints\<close>; with neither key both
  collections remain \<open>null\<close>. Building a collection from a value gives \<open>null\<close> for an
  absent or empty value and a new collection of its entries otherwise.
\<close>

theorem C8_entry_and_exit_collections:
  "(def_entryPoints d \<noteq> None \<longrightarrow>
      entryCollection (new_StandardRouteModel F d) = buildSegmentCollection F (def_entryPoints d) \<and>
      exitCollection (new_StandardRouteModel F d) = buildSegmentCollection F (def_rwy d))
   \<and> (def_entryPoints d = None \<and> def_exitPoints d \<noteq> None \<longrightarrow>
      entryCollection (new_StandardRouteModel F d) = buildSegmentCollection F (def_rwy d) \<and>
      exitCollection (new_StandardRouteModel F d) = buildSegmentCollection F (def_exitPoints d))
   \<and> (def_entryPoints d = None \<and> def_exitPoints d = None \<longrightarrow>
      entryCollection (new_StandardRouteModel F d) = None \<and>
      exitCollection (new_StandardRouteModel F d) = None)
   \<and> (\<forall>entries. entries \<noteq> [] \<longrightarrow>
        buildSegmentCollection F (Some entries) = Some (new_RouteSegmentCollection F entries))
   \<and> buildSegmentCollection F None = None \<and> buildSegmentCollection F (Some []) = None"
  by (simp add: new_model_collections buildSegmentCollection_def)

theorem C8_entry_and_exit_collections_witness:
  "def_entryPoints example_star \<noteq> None
   \<and> entryCollection (new_StandardRouteModel example_fix_env example_star) =
       Some (new_RouteSegmentCollection example_fix_env [(js ''E'', [FixName (js ''A'')])])
   \<and> exitCollection (new_StandardRouteModel example_fix_env example_star) =
       Some (new_RouteSegmentCollection example_fix_env [(js ''01L'', [FixName (js ''C'')])])
   \<and> def_entryPoints example_sid = None \<and> def_exitPoints example_sid \<noteq> None
   \<and> entryCollection (new_StandardRouteModel example_fix_env example_sid) =
       Some (new_RouteSegmentCollection example_fix_env
               [(js ''01L'', [FixName (js ''A''), FixName (js ''B'')])])
   \<and> exitCollection (new_StandardRouteModel example_fix_env example_sid) =
       Some (new_RouteSegmentCollection example_fix_env [(js ''X'', [FixName (js ''D'')])])
   \<and> entryCollection (new_StandardRouteModel example_fix_env
        (example_sid\<lparr>def_exitPoints := None\<rparr>)) = None
   \<and> exitCollection (new_StandardRouteModel example_fix_env
        (example_sid\<lparr>def_exitPoints := None\<rparr>)) = None"
  using C8_entry_and_exit_collections [of example_star example_fix_env]
    C8_entry_and_exit_collections [of example_sid example_fix_env]
    C8_entry_and_exit_collections [of "example_sid\<lparr>def_exitPoints := None\<rparr>" example_fix_env]
  by (simp add: example_sid_def example_star_def)

text \<open>
  Claim C9 (the code departs from it). The claim asks that \<open>reset\<close> clears every field,
  the entry-point data included. \<open>reset\<close> assigns nine fields, \<open>exitPoints\<close> among them,
  and leaves out \<open>entryPoints\<close>, which \<open>_init\<close> assigns: after \<open>reset\<close> a model built from
  a STAR definition still holds its entry-point data.
\<close>

theorem C9_reset_keeps_entryPoints:
  "entryPoints (reset (new_StandardRouteModel example_fix_env example_star)) =
     Some [(js ''E'', [FixName (js ''A'')])]
   \<and> exitPoints (reset (new_StandardRouteModel example_fix_env example_sid)) = Some []"
  by (simp add: route_defs route_example_defs)

lemma spec_annotated_fields:
  "wp_name (spec_annotated F ws i) = wp_name (ws ! i)"
  "wp_position (spec_annotated F ws i) = wp_position (ws ! i)"
  "wp_restrictions (spec_annotated F ws i) = wp_restrictions (ws ! i)"
  by (simp_all add: spec_annotated_def)

lemma annotate_step:
  assumes "k < length ws"
  shows "annotateWaypoint F k (map (spec_annotated F ws) [0 ..< k] @ drop k ws) =
           map (spec_annotated F ws) [0 ..< Suc k] @ drop (Suc k) ws"
proof -
  let ?done = "map (spec_annotated F ws) [0 ..< k]"
  let ?xs = "?done @ drop k ws"
  have len: "length ?done = k" by simp
  have d: "drop k ws = ws ! k # drop (Suc k) ws"
    using assms by (simp add: Cons_nth_drop_Suc)
  have cur: "?xs ! k = ws ! k"
    using assms by (simp add: nth_append)
  have prev: "0 < k \<Longrightarrow> ?xs ! (k - 1) = spec_annotated F ws (k - 1)"
    by (simp add: nth_append)
  have upd: "?xs[k := y] = ?done @ y # drop (Suc k) ws" for y
    using list_update_length [of ?done "ws ! k" "drop (Suc k) ws" y] d len by simp
  have "annotateWaypoint F k ?xs = ?done @ spec_annotated F ws k # drop (Suc k) ws"
  proof (cases "k = 0")
    case True
    show ?thesis
      unfolding annotateWaypoint_def Let_def cur upd
      using True
      by (simp add: calculateDistanceBetweenWaypoints_def spec_annotated_def)
  next
    case False
    then have p: "?xs ! (k - 1) = spec_annotated F ws (k - 1)"
      using prev by simp
    show ?thesis
      unfolding annotateWaypoint_def Let_def cur p upd
      using False
      by (simp add: spec_annotated_fields calculateDistanceBetweenWaypoints_def
          spec_annotated_def [of F ws k])
  qed
  then show ?thesis by simp
qed

lemma fold_annotate_prefix:
  "k \<le> length ws \<Longrightarrow>
   fold (annotateWaypoint F) [0 ..< k] ws = map (spec_annotated F ws) [0 ..< k] @ drop k ws"
proof (induction k)
  case 0
  show ?case by simp
next
  case (Suc k)
  then have "fold (annotateWaypoint F) [0 ..< k] ws =
               map (spec_annotated F ws) [0 ..< k] @ drop k ws"
    by simp
  then have "fold (annotateWaypoint F) [0 ..< Suc k] ws =
               annotateWaypoint F k (map (spec_annotated F ws) [0 ..< k] @ drop k ws)"
    by simp
  also have "\<dots> = map (spec_annotated F ws) [0 ..< Suc k] @ drop (Suc k) ws"
    using Suc.prems by (intro annotate_step) simp
  finally show ?case .
qed

lemma update_eq_spec:
  "updateWaypointsWithPreviousWaypointData F ws = map (spec_annotated F ws) [0 ..< length ws]"
  by (simp add: updateWaypointsWithPreviousWaypointData_def fold_annotate_prefix)

lemma distance_to_itself: "nm F (distance2d p p) = 0"
  by (simp add: nm_def distance2d_def)

text \<open>
  Claim C6. The pre-spawn pass keeps the length of the sequence and the name, position
  and restriction of every waypoint; the waypoint at position 0 receives distance 0 and
  its own name as the previous name; the waypoint at a position \<open>i \<ge> 1\<close> receives the
  planar distance between the positions of the waypoints at \<open>i - 1\<close> and \<open>i\<close>, in
  nautical miles, and the name of the waypoint at \<open>i - 1\<close>.
\<close>

theorem C6_distance_annotation:
  "length (updateWaypointsWithPreviousWaypointData F ws) = length ws
   \<and> (ws \<noteq> [] \<longrightarrow>
        distanceFromPreviousWaypoint (updateWaypointsWithPreviousWaypointData F ws ! 0) = Some 0 \<and>
        previousStandardWaypointName (updateWaypointsWithPreviousWaypointData F ws ! 0) =
          Some (wp_name (ws ! 0)))
   \<and> (\<forall>i. 1 \<le> i \<and> i < length ws \<longrightarrow>
        distanceFromPreviousWaypoint (updateWaypointsWithPreviousWaypointData F ws ! i) =
          Some (nm F (distance2d (wp_position (ws ! (i - 1))) (wp_position (ws ! i)))) \<and>
        previousStandardWaypointName (updateWaypointsWithPreviousWaypointData F ws ! i) =
          Some (wp_name (ws ! (i - 1))))
   \<and> (\<forall>i. i < length ws \<longrightarrow>
        wp_name (updateWaypointsWithPreviousWaypointData F ws ! i) = wp_name (ws ! i) \<and>
        wp_position (updateWaypointsWithPreviousWaypointData F ws ! i) = wp_position (ws ! i) \<and>
        wp_restrictions (updateWaypointsWithPreviousWaypointData F ws ! i) =
          wp_restrictions (ws ! i))"
  by (simp add: update_eq_spec spec_annotated_fields)
     (simp add: spec_annotated_def distance_to_itself)

theorem C6_distance_annotation_witness:
  "updateWaypointsWithPreviousWaypointData example_fix_env
     [waypoint_at (js ''A'') (0, 0), waypoint_at (js ''B'') (3, 4)] =
     [(waypoint_at (js ''A'') (0, 0))
        \<lparr>distanceFromPreviousWaypoint := Some 0,
         previousStandardWaypointName := Some (js ''A'')\<rparr>,
      (waypoint_at (js ''B'') (3, 4))
        \<lparr>distanceFromPreviousWaypoint := Some (5 / 2),
         previousStandardWaypointName := Some (js ''A'')\<rparr>]"
proof -
  let ?ws = "[waypoint_at (js ''A'') (0, 0), waypoint_at (js ''B'') (3, 4)]"
  let ?r = "updateWaypointsWithPreviousWaypointData example_fix_env ?ws"
  have s: "sqrt 25 = 5"
    using real_sqrt_abs [of 5] by simp
  have d: "nm example_fix_env (distance2d (0, 0) (3, 4)) = 5 / 2"
    by (simp add: nm_def distance2d_def example_fix_env_def s)
  have l: "length ?r = 2"
    using C6_distance_annotation [of example_fix_env ?ws] by simp
  have a: "?r ! 0 = (waypoint_at (js ''A'') (0, 0))
        \<lparr>distanceFromPreviousWaypoint := Some 0,
         previousStandardWaypointName := Some (js ''A'')\<rparr>"
    using C6_distance_annotation [of example_fix_env ?ws]
    by (simp add: waypoint_at_def StandardRouteWaypointModel.equality)
  have "(1::nat) \<le> 1 \<and> 1 < length ?ws" by simp
  then have b: "?r ! 1 = (waypoint_at (js ''B'') (3, 4))
        \<lparr>distanceFromPreviousWaypoint := Some (5 / 2),
         previousStandardWaypointName := Some (js ''A'')\<rparr>"
    using C6_distance_annotation [of example_fix_env ?ws] d
    by (simp add: waypoint_at_def StandardRouteWaypointModel.equality)
  show ?thesis
    using l a b by (intro nth_equalityI) (auto simp: less_Suc_eq numeral_2_eq_2)
qed

end
